theory Spec2Isabelle
  imports Complex_Main "HOL-Library.Log_Nat"
begin

section \<open>Python primitives used by \<open>figure_type_creator.py\<close>\<close>

text \<open>
  The exceptions the module can raise. \<open>ZeroDivisionError\<close> comes from the true
  division in \<open>get_entries\<close>, \<open>IndexError\<close> from \<open>colors[i]\<close> in the dict
  comprehensions of \<open>__init__\<close>, \<open>NotImplementedError\<close> from the last branch of
  \<open>get_line_sizes\<close>, \<open>AssertionError\<close> from the \<open>assert\<close> of \<open>paper_small_font\<close>,
  \<open>ValueError\<close> from the sum of two cyclers of different length, \<open>StopIteration\<close> from
  the sum of empty cyclers, and \<open>OverflowError\<close> from a true division whose quotient is
  beyond the range of a double.
\<close>

datatype py_error =
  ZeroDivisionError | IndexError | NotImplementedError | AssertionError | ValueError |
  OverflowError | StopIteration

text \<open>Sequencing of fallible steps: the first exception ends the computation.\<close>

definition bind_res :: "py_error + 'a \<Rightarrow> ('a \<Rightarrow> py_error + 'b) \<Rightarrow> py_error + 'b" where
  "bind_res r f = (case r of Inl e \<Rightarrow> Inl e | Inr x \<Rightarrow> f x)"

text \<open>
  \<open>int(a / b)\<close> for integers \<open>a\<close> and \<open>b \<noteq> 0\<close>, with the quotient taken exactly: the
  true quotient, truncated towards zero. Python computes the quotient as a double; where
  that matters, \<open>py_truediv\<close> and \<open>py_int\<close> below model it, and the two agree whenever
  \<open>\<bar>a\<bar> < 2 ^ 53\<close> (lemma \<open>py_int_truediv_float\<close>).
\<close>

definition py_int_truediv :: "int \<Rightarrow> int \<Rightarrow> int" where
  "py_int_truediv a b = sgn a * sgn b * (\<bar>a\<bar> div \<bar>b\<bar>)"

text \<open>\<open>xs * m\<close> on a list: \<open>m\<close> copies of \<open>xs\<close>, none when \<open>m \<le> 0\<close>.\<close>

definition py_list_mul :: "'a list \<Rightarrow> int \<Rightarrow> 'a list" where
  "py_list_mul xs m = concat (replicate (nat m) xs)"

text \<open>
  The slice \<open>xs[:k]\<close>: the first \<open>k\<close> elements (all of \<open>xs\<close> when it is shorter), and
  for a negative \<open>k\<close> all but the last \<open>-k\<close> elements.
\<close>

definition py_slice_to :: "'a list \<Rightarrow> int \<Rightarrow> 'a list" where
  "py_slice_to xs k =
     (if k < 0 then take (nat (int (length xs) + k)) xs else take (nat k) xs)"

section \<open>The cyclic palette assigner\<close>

text \<open>
  \<^verbatim>\<open>
  def get_entries(cycle_list, num_entries):
      n = len(cycle_list)
      m = int(num_entries / n) + 1
      return (cycle_list * m)[:num_entries]
  \<close>
  The division raises \<open>ZeroDivisionError\<close> on an empty \<open>cycle_list\<close>. In \<open>get_entries\<close>
  the quotient is exact; \<open>get_entries_float\<close> below is the same function with the
  quotient in double precision, and equals \<open>get_entries\<close> whenever
  \<open>\<bar>num_entries\<bar> < 2 ^ 53\<close> (lemma \<open>get_entries_float_exact\<close>).
\<close>

definition get_entries :: "'a list \<Rightarrow> int \<Rightarrow> py_error + 'a list" where
  "get_entries cycle_list num_entries =
     (let n = int (length cycle_list) in
      if n = 0 then Inl ZeroDivisionError
      else (let m = py_int_truediv num_entries n + 1 in
            Inr (py_slice_to (py_list_mul cycle_list m) num_entries)))"

subsection \<open>The quotient in double precision\<close>







section \<open>Values of style options\<close>

text \<open>
  The values stored in a style dictionary: numbers, strings and the property cycle.
  A Python number is modelled as the real number its literal denotes (\<open>42\<close>, \<open>0.5\<close>,
  \<open>doc.footnotesize - 1\<close>); the rounding of binary floating point is not modelled.
  A colour is a value of an arbitrary type \<open>'c\<close> (an RGB tuple for a seaborn palette, a
  string for a named colour).
\<close>

datatype 'c cycle_value = Color 'c | Style string

datatype 'c py_value =
  Num real | Str string | Cycler "(string \<times> 'c cycle_value) list list"

type_synonym 'c style_dict = "string \<rightharpoonup> 'c py_value"

text \<open>
  The objects compared in \<open>get_font_sizes\<close>. The name \<open>type\<close> is bound to the parameter
  of \<open>__init__\<close> only inside \<open>__init__\<close>; everywhere else in the module it is Python's
  builtin class \<open>type\<close>. A class and a string never compare equal.
\<close>

datatype py_object = Builtin_type | Str_object string

fun py_eq :: "py_object \<Rightarrow> py_object \<Rightarrow> bool" where
  "py_eq Builtin_type Builtin_type = True"
| "py_eq (Str_object a) (Str_object b) = (a = b)"
| "py_eq _ _ = False"

text \<open>\<open>sep.join(parts)\<close> on strings.\<close>

fun str_join :: "string \<Rightarrow> string list \<Rightarrow> string" where
  "str_join sep [] = []"
| "str_join sep [x] = x"
| "str_join sep (x # y # ys) = x @ sep @ str_join sep (y # ys)"

section \<open>External collaborators\<close>

text \<open>
  Modelled from the spec: \<open>util.in2pt\<close>, the unit conversion helper, which is not part of
  the source file. The spec describes it as a pure function from inches to points that
  multiplies by 72.
\<close>

definition in2pt :: "real \<Rightarrow> real" where
  "in2pt inches = inches * 72"

text \<open>
  Modelled from the spec: the document object of the \<open>pubplot\<close> library, of which the
  builder uses the style dictionary (merged into by \<open>update_style\<close>), the numeric attribute
  \<open>footnotesize\<close> and the attribute dictionary \<open>__dict__\<close> (the field \<open>dict\<close>). The
  constructor \<open>Document(document_class, style=style)\<close> itself is a parameter of
  \<open>get_figure_type\<close> below.
\<close>

record 'c document =
  style :: "'c style_dict"
  footnotesize :: real
  dict :: "'c style_dict"

definition update_style :: "'c document \<Rightarrow> 'c style_dict \<Rightarrow> 'c document" where
  "update_style doc partial = doc\<lparr>style := style doc ++ partial\<rparr>"

text \<open>
  The \<open>cycler\<close> library: \<open>cycler(label, itr)\<close> is the sequence of one-entry dictionaries
  \<open>{label: v}\<close> for \<open>v\<close> in \<open>itr\<close>. The sum \<open>a + b\<close> raises \<open>ValueError\<close> when the lengths
  of the two cyclers differ, and otherwise merges them position by position. The in-place
  sum \<open>a += b\<close> merges them the same way without the length check, up to the shorter of
  the two. To merge, both look at the first entry of each operand, which raises
  \<open>StopIteration\<close> on an empty cycler. (Both also raise when the two share a label, which
  the labels \<open>color\<close>, \<open>ls\<close> and \<open>marker\<close> never do.)
\<close>

definition cycler :: "string \<Rightarrow> 'v list \<Rightarrow> (string \<times> 'v) list list" where
  "cycler label itr = map (\<lambda>v. [(label, v)]) itr"

definition cycler_add ::
  "(string \<times> 'v) list list \<Rightarrow> (string \<times> 'v) list list \<Rightarrow> py_error + (string \<times> 'v) list list"
where
  "cycler_add a b =
     (if length a \<noteq> length b then Inl ValueError
      else if a = [] \<or> b = [] then Inl StopIteration
      else Inr (map2 (@) a b))"

definition cycler_iadd ::
  "(string \<times> 'v) list list \<Rightarrow> (string \<times> 'v) list list \<Rightarrow> py_error + (string \<times> 'v) list list"
where
  "cycler_iadd a b =
     (if a = [] \<or> b = [] then Inl StopIteration else Inr (map2 (@) a b))"

section \<open>The style configuration builder\<close>

text \<open>
  The dict comprehension \<open>{colors[i]: v for i, v in enumerate(vs)}\<close>, from index \<open>i\<close>
  on, added to the entries \<open>d\<close> made so far. \<open>colors[i]\<close> raises \<open>IndexError\<close> when
  \<open>i\<close> is not an index of \<open>colors\<close>; an entry for a key already present replaces it.
\<close>

fun dict_by_color ::
  "'c list \<Rightarrow> nat \<Rightarrow> 'v list \<Rightarrow> ('c \<rightharpoonup> 'v) \<Rightarrow> py_error + ('c \<rightharpoonup> 'v)"
where
  "dict_by_color colors i [] d = Inr d"
| "dict_by_color colors i (v # vs) d =
     (if i < length colors then dict_by_color colors (Suc i) vs (d(colors ! i \<mapsto> v))
      else Inl IndexError)"

record ('dc, 'c) FigureTypeCreator =
  type :: string
  document_class :: 'dc
  num_entries :: int
  use_markers :: bool
  paper_use_small_font :: bool
  colors :: "'c list"
  linestyles :: "string list"
  markers :: "string list"
  hatches :: "string list"
  hatch_map :: "'c \<rightharpoonup> string"
  marker_map :: "'c \<rightharpoonup> string"
  ls_map :: "'c \<rightharpoonup> string"

definition available_linestyles :: "string list" where
  "available_linestyles = [''solid'', ''dotted'', ''dashed'', ''dashdot'']"

definition available_markers :: "string list" where
  "available_markers = [''o'', ''^'', ''s'', ''*'', ''X'', ''d'']"

text \<open>
  The first hatch is the empty string, the third the two-character string of two
  backslashes.
\<close>

definition available_hatches :: "string list" where
  "available_hatches =
     [[], ''//'', [CHR 0x5C, CHR 0x5C], ''||'', ''--'', ''++'', ''xx'']"

text \<open>
  \<open>__init__\<close>: the colour sequence is the slice \<open>list(colors)[:num_entries]\<close>; the other
  three sequences come from \<open>get_entries\<close>; then the three maps keyed by colour are built,
  \<open>hatch_map\<close> first.
\<close>

definition init ::
  "string \<Rightarrow> 'dc \<Rightarrow> 'c list \<Rightarrow> bool \<Rightarrow> bool \<Rightarrow> int \<Rightarrow> py_error + ('dc, 'c) FigureTypeCreator"
where
  "init type' document_class' colors' use_markers' paper_use_small_font' num_entries' =
     (let self_colors = py_slice_to colors' num_entries' in
      bind_res (get_entries available_linestyles num_entries') (\<lambda>self_linestyles.
      bind_res (get_entries available_markers num_entries') (\<lambda>self_markers.
      bind_res (get_entries available_hatches num_entries') (\<lambda>self_hatches.
      bind_res (dict_by_color self_colors 0 self_hatches Map.empty) (\<lambda>self_hatch_map.
      bind_res (dict_by_color self_colors 0 self_markers Map.empty) (\<lambda>self_marker_map.
      bind_res (dict_by_color self_colors 0 self_linestyles Map.empty) (\<lambda>self_ls_map.
      Inr \<lparr>type = type', document_class = document_class',
           num_entries = num_entries', use_markers = use_markers',
           paper_use_small_font = paper_use_small_font',
           colors = self_colors, linestyles = self_linestyles,
           markers = self_markers, hatches = self_hatches,
           hatch_map = self_hatch_map, marker_map = self_marker_map,
           ls_map = self_ls_map\<rparr>)))))))"

text \<open>
  \<open>get_cycler\<close>: colours and line styles, and markers as well when \<open>use_markers\<close> is set.
\<close>

definition get_cycler ::
  "('dc, 'c) FigureTypeCreator \<Rightarrow> py_error + (string \<times> 'c cycle_value) list list"
where
  "get_cycler self =
     bind_res (cycler_add (cycler ''color'' (map Color (colors self)))
                          (cycler ''ls'' (map Style (linestyles self))))
       (\<lambda>cycling.
          if use_markers self
          then cycler_iadd cycling (cycler ''marker'' (map Style (markers self)))
          else Inr cycling)"

definition get_custom_style :: "('dc, 'c) FigureTypeCreator \<Rightarrow> 'c style_dict" where
  "get_custom_style self = Map.empty"

text \<open>
  \<open>get_line_sizes\<close>: the dashed grid for every mode, the print sizes for \<open>paper\<close>, an empty
  update for \<open>presentation\<close>, and \<open>NotImplementedError\<close> for any other mode.
\<close>

definition get_line_sizes :: "('dc, 'c) FigureTypeCreator \<Rightarrow> py_error + 'c style_dict" where
  "get_line_sizes self =
     (let ret = [''grid.linestyle'' \<mapsto> Str ''--''] in
      if type self = ''paper'' then
        Inr (ret ++ [''axes.linewidth'' \<mapsto> Num 0.5,
                     ''xtick.major.width'' \<mapsto> Num 0.5,
                     ''ytick.major.width'' \<mapsto> Num 0.5,
                     ''xtick.minor.width'' \<mapsto> Num 0.4,
                     ''ytick.minor.width'' \<mapsto> Num 0.4,
                     ''lines.linewidth'' \<mapsto> Num 0.8,
                     ''lines.markersize'' \<mapsto> Num 1.5,
                     ''legend.handlelength'' \<mapsto> Num 2.5,
                     ''hatch.linewidth'' \<mapsto> Num 0.5,
                     ''grid.linewidth'' \<mapsto> Num 0.25])
      else if type self = ''presentation'' then Inr (ret ++ Map.empty)
      else Inl NotImplementedError)"

text \<open>
  \<open>get_font_sizes\<close>. The test of the source is \<open>type == 'presentation'\<close>, on the builtin
  \<open>type\<close>, not on \<open>self.type\<close>.
\<close>

definition get_font_sizes :: "('dc, 'c) FigureTypeCreator \<Rightarrow> 'c style_dict" where
  "get_font_sizes self =
     (let ret = [''font.family'' \<mapsto> Str ''sans-serif'',
                 ''text.latex.preamble'' \<mapsto>
                    Str (str_join [CHR 0x0A]
                          [CHR 0x5C # ''usepackage[cm]{sfmath}'',
                           CHR 0x5C # ''usepackage{amsmath}''])] in
      if py_eq Builtin_type (Str_object ''presentation'') then
        (let big_size = 28; small_size = 24 in
         ret ++ [''font.size'' \<mapsto> Num big_size,
                 ''axes.titlesize'' \<mapsto> Num big_size,
                 ''axes.labelsize'' \<mapsto> Num big_size,
                 ''legend.fontsize'' \<mapsto> Num small_size,
                 ''legend.title_fontsize'' \<mapsto> Num big_size,
                 ''xtick.labelsize'' \<mapsto> Num small_size,
                 ''ytick.labelsize'' \<mapsto> Num small_size])
      else ret)"

text \<open>
  \<open>presentation_config\<close>: the two slide sizes are written into the attributes of the
  document. The method does not look at \<open>self.type\<close>.
\<close>

definition presentation_config ::
  "('dc, 'c) FigureTypeCreator \<Rightarrow> 'c document \<Rightarrow> 'c document"
where
  "presentation_config self doc =
     (let ppt_sizes = [''columnwidth'' \<mapsto> Num (in2pt 13.33),
                       ''textwidth'' \<mapsto> Num (in2pt 7.5)] in
      doc\<lparr>dict := dict doc ++ ppt_sizes\<rparr>)"

text \<open>
  \<open>paper_small_font\<close> mutates the document it is given and returns nothing: the model
  returns the outcome (the exception raised, if any) and the document afterwards. The
  \<open>assert\<close> comes before the call of \<open>update_style\<close>.
\<close>

definition paper_small_font ::
  "('dc, 'c) FigureTypeCreator \<Rightarrow> 'c document \<Rightarrow> (py_error + unit) \<times> 'c document"
where
  "paper_small_font self doc =
     (if paper_use_small_font self then
        (if type self = ''paper'' then
           (let big_size = footnotesize doc - 1;
                small_size = footnotesize doc - 2 in
            (Inr (),
             update_style doc
               [''font.size'' \<mapsto> Num big_size,
                ''axes.titlesize'' \<mapsto> Num big_size,
                ''axes.labelsize'' \<mapsto> Num big_size,
                ''legend.fontsize'' \<mapsto> Num small_size,
                ''legend.title_fontsize'' \<mapsto> Num big_size,
                ''xtick.labelsize'' \<mapsto> Num small_size,
                ''ytick.labelsize'' \<mapsto> Num small_size]))
         else (Inl AssertionError, doc))
      else (Inr (), doc))"

text \<open>
  \<open>get_figure_type\<close>, with the external constructor \<open>Document\<close> as its first argument.
  The style is assembled in the order of the source: the cycler, the custom style, the
  line sizes, the font sizes; then the document is constructed, \<open>presentation_config\<close>
  and \<open>paper_small_font\<close> are applied to it, and it is returned.
\<close>

definition get_figure_type ::
  "('dc \<Rightarrow> 'c style_dict \<Rightarrow> 'c document) \<Rightarrow> ('dc, 'c) FigureTypeCreator \<Rightarrow>
     py_error + 'c document"
where
  "get_figure_type Document self =
     bind_res (get_cycler self) (\<lambda>cycling.
       (let style0 = [''pdf.fonttype'' \<mapsto> Num 42, ''axes.prop_cycle'' \<mapsto> Cycler cycling];
            style1 = style0 ++ get_custom_style self in
        bind_res (get_line_sizes self) (\<lambda>line_sizes.
          (let style2 = style1 ++ line_sizes;
               style3 = style2 ++ get_font_sizes self;
               doc = Document (document_class self) style3;
               doc1 = presentation_config self doc in
           case paper_small_font self doc1 of
             (Inl e, _) \<Rightarrow> Inl e
           | (Inr _, doc2) \<Rightarrow> Inr doc2))))"

section \<open>Properties of the assigner\<close>

lemma length_concat_replicate:
  "length (concat (replicate m xs)) = m * length xs"
  by (induction m) simp_all


lemma py_int_truediv_nonneg:
  "0 \<le> a \<Longrightarrow> 0 < b \<Longrightarrow> py_int_truediv a b = a div b"
  by (cases "a = 0") (simp_all add: py_int_truediv_def)

lemma copies_cover:
  assumes "xs \<noteq> []" and "0 \<le> k"
  shows "nat k < nat (k div int (length xs) + 1) * length xs"
proof -
  let ?n = "int (length xs)"
  have pos: "0 < ?n" using assms(1) by simp
  have "k = ?n * (k div ?n) + k mod ?n" by simp
  moreover have "k mod ?n < ?n" using pos by simp
  ultimately have "k < ?n * (k div ?n) + ?n" by linarith
  then have lt: "k < (k div ?n + 1) * ?n" by (simp add: algebra_simps)
  have q: "0 \<le> k div ?n" using assms(2) pos by (simp add: pos_imp_zdiv_nonneg_iff)
  have "int (nat (k div ?n + 1)) = k div ?n + 1"
    using q by simp
  then have "int (nat (k div ?n + 1) * length xs) = (k div ?n + 1) * ?n"
    by (simp only: of_nat_mult)
  moreover have "int (nat k) = k"
    using assms(2) by simp
  ultimately have "int (nat k) < int (nat (k div ?n + 1) * length xs)"
    using lt by (simp only:)
  then show ?thesis by (simp only: of_nat_less_iff)
qed

lemma get_entries_nonneg:
  assumes "xs \<noteq> []" and "0 \<le> k"
  shows "get_entries xs k =
           Inr (take (nat k) (concat (replicate (nat (k div int (length xs) + 1)) xs)))"
  using assms
  by (simp add: get_entries_def py_slice_to_def py_list_mul_def py_int_truediv_nonneg)

lemma get_entries_length:
  assumes "xs \<noteq> []" and "0 \<le> k" and "get_entries xs k = Inr ys"
  shows "length ys = nat k"
proof -
  have "ys = take (nat k) (concat (replicate (nat (k div int (length xs) + 1)) xs))"
    using assms get_entries_nonneg [of xs k] by simp
  moreover have "nat k < nat (k div int (length xs) + 1) * length xs"
    using assms(1,2) by (rule copies_cover)
  ultimately show ?thesis by (simp add: length_concat_replicate)
qed




section \<open>Properties of the quotient in double precision\<close>

























section \<open>Properties of the constructor\<close>

lemma dict_by_color_total:
  "i + length vs \<le> length cs \<Longrightarrow> \<exists>d'. dict_by_color cs i vs d = Inr d'"
  by (induction vs arbitrary: i d) simp_all

lemma dict_by_color_untouched:
  "dict_by_color cs i vs d = Inr d' \<Longrightarrow> \<forall>k < length vs. cs ! (i + k) \<noteq> c \<Longrightarrow> d' c = d c"
proof (induction vs arbitrary: i d)
  case Nil
  then show ?case by simp
next
  case (Cons v vs)
  from Cons.prems(1) have run: "dict_by_color cs (Suc i) vs (d(cs ! i \<mapsto> v)) = Inr d'"
    by (simp split: if_splits)
  from Cons.prems(2) have here: "cs ! i \<noteq> c" by force
  from Cons.prems(2) have "\<forall>k < length vs. cs ! (Suc i + k) \<noteq> c" by force
  with run have "d' c = (d(cs ! i \<mapsto> v)) c" by (rule Cons.IH)
  with here show ?case by simp
qed

lemma dict_by_color_last:
  "dict_by_color cs i vs d = Inr d' \<Longrightarrow> j < length vs \<Longrightarrow> cs ! (i + j) = c \<Longrightarrow>
   \<forall>k. j < k \<and> k < length vs \<longrightarrow> cs ! (i + k) \<noteq> c \<Longrightarrow> d' c = Some (vs ! j)"
proof (induction vs arbitrary: i j d)
  case Nil
  then show ?case by simp
next
  case (Cons v vs)
  from Cons.prems(1) have run: "dict_by_color cs (Suc i) vs (d(cs ! i \<mapsto> v)) = Inr d'"
    by (simp split: if_splits)
  show ?case
  proof (cases j)
    case 0
    from Cons.prems(4) 0 have "\<forall>k < length vs. cs ! (Suc i + k) \<noteq> c" by force
    with run have "d' c = (d(cs ! i \<mapsto> v)) c" by (rule dict_by_color_untouched)
    with Cons.prems(3) 0 show ?thesis by simp
  next
    case (Suc j')
    from Cons.prems(2) Suc have a: "j' < length vs" by simp
    from Cons.prems(3) Suc have b: "cs ! (Suc i + j') = c" by simp
    from Cons.prems(4) Suc have c: "\<forall>k. j' < k \<and> k < length vs \<longrightarrow> cs ! (Suc i + k) \<noteq> c"
      by force
    from run a b c have "d' c = Some (vs ! j')" by (rule Cons.IH)
    with Suc show ?thesis by simp
  qed
qed


lemma available_nonempty:
  "available_linestyles \<noteq> []" "available_markers \<noteq> []" "available_hatches \<noteq> []"
  by (simp_all add: available_linestyles_def available_markers_def available_hatches_def)

lemma get_entries_builtin:
  assumes "xs \<noteq> []" and "0 \<le> N"
  obtains ys where "get_entries xs N = Inr ys" and "length ys = nat N"
proof -
  obtain ys where ys: "get_entries xs N = Inr ys"
    using assms get_entries_nonneg [of xs N] by simp
  moreover have "length ys = nat N"
    using assms ys by (rule get_entries_length)
  ultimately show thesis by (rule that)
qed

lemma init_ok:
  assumes "0 \<le> N" and "N \<le> int (length palette)"
  shows "\<exists>ls ms hs hm mm lm.
           init t dc palette um sf N =
             Inr \<lparr>type = t, document_class = dc, num_entries = N, use_markers = um,
                  paper_use_small_font = sf, colors = take (nat N) palette,
                  linestyles = ls, markers = ms, hatches = hs,
                  hatch_map = hm, marker_map = mm, ls_map = lm\<rparr> \<and>
           length (take (nat N) palette) = nat N \<and>
           length ls = nat N \<and> length ms = nat N \<and> length hs = nat N \<and>
           dict_by_color (take (nat N) palette) 0 hs Map.empty = Inr hm \<and>
           dict_by_color (take (nat N) palette) 0 ms Map.empty = Inr mm \<and>
           dict_by_color (take (nat N) palette) 0 ls Map.empty = Inr lm"
proof -
  let ?cs = "take (nat N) palette"
  have cs: "length ?cs = nat N" using assms by simp
  obtain ls where ls: "get_entries available_linestyles N = Inr ls" "length ls = nat N"
    using available_nonempty(1) assms(1) by (rule get_entries_builtin)
  obtain ms where ms: "get_entries available_markers N = Inr ms" "length ms = nat N"
    using available_nonempty(2) assms(1) by (rule get_entries_builtin)
  obtain hs where hs: "get_entries available_hatches N = Inr hs" "length hs = nat N"
    using available_nonempty(3) assms(1) by (rule get_entries_builtin)
  have "0 + length hs \<le> length ?cs" using cs hs(2) by simp
  then obtain hm where hm: "dict_by_color ?cs 0 hs Map.empty = Inr hm"
    using dict_by_color_total by blast
  have "0 + length ms \<le> length ?cs" using cs ms(2) by simp
  then obtain mm where mm: "dict_by_color ?cs 0 ms Map.empty = Inr mm"
    using dict_by_color_total by blast
  have "0 + length ls \<le> length ?cs" using cs ls(2) by simp
  then obtain lm where lm: "dict_by_color ?cs 0 ls Map.empty = Inr lm"
    using dict_by_color_total by blast
  have sl: "py_slice_to palette N = ?cs"
    using assms(1) by (simp add: py_slice_to_def)
  have "init t dc palette um sf N =
          Inr \<lparr>type = t, document_class = dc, num_entries = N, use_markers = um,
               paper_use_small_font = sf, colors = ?cs,
               linestyles = ls, markers = ms, hatches = hs,
               hatch_map = hm, marker_map = mm, ls_map = lm\<rparr>"
    by (simp add: init_def sl ls(1) ms(1) hs(1) hm mm lm bind_res_def)
  then show ?thesis using cs ls(2) ms(2) hs(2) hm mm lm by blast
qed

lemmas run_defs = init_def get_entries_def py_int_truediv_def py_list_mul_def py_slice_to_def
  bind_res_def available_linestyles_def available_markers_def available_hatches_def
  eval_nat_numeral

text \<open>
  Claim C2, as the specification states it: for every non-empty colour palette and
  target count \<open>N\<close> the constructor produces four sequences of length \<open>N\<close>. The
  colour sequence is a slice, not a cycle: with two colours and \<open>N = 3\<close> it has two
  entries, the line styles have three, and the constructor raises \<open>IndexError\<close>.
\<close>

theorem init_short_palette_counterexample:
  "init ''paper'' () [''c0'', ''c1''] False True 3 = Inl IndexError \<and>
   length (py_slice_to [''c0'', ''c1''] 3) = 2 \<and>
   get_entries available_linestyles 3 = Inr [''solid'', ''dotted'', ''dashed''] \<and>
   \<not> (\<exists>b. init ''paper'' () [''c0'', ''c1''] False True 3 = Inr b \<and>
          int (length (colors b)) = 3 \<and> int (length (linestyles b)) = 3 \<and>
          int (length (markers b)) = 3 \<and> int (length (hatches b)) = 3)"
  by (simp add: run_defs)

text \<open>
  Claim C2, amended: for every target count \<open>N \<ge> 0\<close> and every colour palette with
  at least \<open>N\<close> entries, the constructor succeeds and the colour, line-style, marker
  and hatch sequences all have length \<open>N\<close>.
\<close>

theorem init_sequences_equal_length:
  assumes "0 \<le> N" and "N \<le> int (length palette)"
  shows "\<exists>b. init t dc palette um sf N = Inr b \<and>
           int (length (colors b)) = N \<and> int (length (linestyles b)) = N \<and>
           int (length (markers b)) = N \<and> int (length (hatches b)) = N"
proof -
  obtain ls ms hs hm mm lm where
    b: "init t dc palette um sf N =
          Inr \<lparr>type = t, document_class = dc, num_entries = N, use_markers = um,
               paper_use_small_font = sf, colors = take (nat N) palette,
               linestyles = ls, markers = ms, hatches = hs,
               hatch_map = hm, marker_map = mm, ls_map = lm\<rparr>"
    and len: "length (take (nat N) palette) = nat N" "length ls = nat N"
      "length ms = nat N" "length hs = nat N"
    using init_ok [OF assms, of t dc um sf] by blast
  show ?thesis using b len assms(1) by simp
qed

theorem init_sequences_equal_length_witness:
  "(0::int) \<le> 3 \<and> 3 \<le> int (length [''c0'', ''c1'', ''c2'', ''c3'']) \<and>
   (\<exists>b. init ''paper'' () [''c0'', ''c1'', ''c2'', ''c3''] False True 3 = Inr b \<and>
      int (length (colors b)) = 3 \<and> int (length (linestyles b)) = 3 \<and>
      int (length (markers b)) = 3 \<and> int (length (hatches b)) = 3)"
  using init_sequences_equal_length [of 3 "[''c0'', ''c1'', ''c2'', ''c3'']" "''paper''" "()" False True]
  by simp

text \<open>
  Claim C6. For every \<open>N\<close>, every colour palette of length at least \<open>N\<close> whose
  first \<open>N\<close> entries are pairwise distinct, and every index \<open>i\<close> in \<open>[0, N)\<close>:
  looking up \<open>colors[i]\<close> in \<open>ls_map\<close> yields \<open>linestyles[i]\<close>, in \<open>marker_map\<close>
  yields \<open>markers[i]\<close>, and in \<open>hatch_map\<close> yields \<open>hatches[i]\<close>.
\<close>

theorem reverse_maps_round_trip:
  assumes "N \<le> int (length palette)" and "distinct (take (nat N) palette)" and "int i < N"
  shows "\<exists>b. init t dc palette um sf N = Inr b \<and>
           ls_map b (colors b ! i) = Some (linestyles b ! i) \<and>
           marker_map b (colors b ! i) = Some (markers b ! i) \<and>
           hatch_map b (colors b ! i) = Some (hatches b ! i)"
proof -
  let ?cs = "take (nat N) palette"
  have nn: "0 \<le> N" using assms(3) by simp
  have i: "i < nat N" using assms(3) by simp
  obtain ls ms hs hm mm lm where
    b: "init t dc palette um sf N =
          Inr \<lparr>type = t, document_class = dc, num_entries = N, use_markers = um,
               paper_use_small_font = sf, colors = ?cs,
               linestyles = ls, markers = ms, hatches = hs,
               hatch_map = hm, marker_map = mm, ls_map = lm\<rparr>"
    and len: "length ?cs = nat N" "length ls = nat N" "length ms = nat N" "length hs = nat N"
    and maps: "dict_by_color ?cs 0 hs Map.empty = Inr hm"
      "dict_by_color ?cs 0 ms Map.empty = Inr mm"
      "dict_by_color ?cs 0 ls Map.empty = Inr lm"
    using init_ok [OF nn assms(1), of t dc um sf] by blast
  have later: "\<forall>k. i < k \<and> k < nat N \<longrightarrow> ?cs ! (0 + k) \<noteq> ?cs ! i"
  proof (intro allI impI)
    fix k
    assume k: "i < k \<and> k < nat N"
    then have "k < length ?cs" and "i < length ?cs"
      using len(1) i by (simp_all only:)
    with assms(2) have "(?cs ! k = ?cs ! i) = (k = i)"
      by (rule nth_eq_iff_index_eq)
    with k show "?cs ! (0 + k) \<noteq> ?cs ! i"
      by (simp only: add_0) simp
  qed
  have here: "?cs ! (0 + i) = ?cs ! i" by simp
  have "hm (?cs ! i) = Some (hs ! i)"
    using maps(1) _ here by (rule dict_by_color_last) (use i later len in simp_all)
  moreover have "mm (?cs ! i) = Some (ms ! i)"
    using maps(2) _ here by (rule dict_by_color_last) (use i later len in simp_all)
  moreover have "lm (?cs ! i) = Some (ls ! i)"
    using maps(3) _ here by (rule dict_by_color_last) (use i later len in simp_all)
  ultimately show ?thesis using b by simp
qed

theorem reverse_maps_round_trip_witness:
  "\<exists>b. init ''paper'' () [''c0'', ''c1'', ''c2''] False True 3 = Inr b \<and>
      colors b ! 2 = ''c2'' \<and> linestyles b ! 2 = ''dashed'' \<and>
      markers b ! 2 = ''s'' \<and> hatches b ! 2 = [CHR 0x5C, CHR 0x5C] \<and>
      ls_map b (colors b ! 2) = Some (linestyles b ! 2) \<and>
      marker_map b (colors b ! 2) = Some (markers b ! 2) \<and>
      hatch_map b (colors b ! 2) = Some (hatches b ! 2)"
proof -
  have h1: "3 \<le> int (length [''c0'', ''c1'', ''c2''])" by simp
  have h2: "distinct (take (nat 3) [''c0'', ''c1'', ''c2''])" by (simp add: eval_nat_numeral)
  have h3: "int 2 < 3" by simp
  obtain b where b: "init ''paper'' () [''c0'', ''c1'', ''c2''] False True 3 = Inr b"
    and m: "ls_map b (colors b ! 2) = Some (linestyles b ! 2)"
      "marker_map b (colors b ! 2) = Some (markers b ! 2)"
      "hatch_map b (colors b ! 2) = Some (hatches b ! 2)"
    using reverse_maps_round_trip [OF h1 h2 h3, of "''paper''" "()" False True] by blast
  have "colors b ! 2 = ''c2'' \<and> linestyles b ! 2 = ''dashed'' \<and>
      markers b ! 2 = ''s'' \<and> hatches b ! 2 = [CHR 0x5C, CHR 0x5C]"
    using b by (simp add: run_defs) (auto simp: eval_nat_numeral)
  with b m show ?thesis by blast
qed

text \<open>
  Claim C9. When a colour \<open>c\<close> occurs in the first \<open>N\<close> entries of the palette
  (more than once, in the case the claim is about), each of the three maps keyed by
  colour binds \<open>c\<close> to the channel value at the last index \<open>j\<close> in \<open>[0, N)\<close> at
  which \<open>c\<close> occurs: later entries replace earlier ones.
\<close>

theorem reverse_maps_last_wins:
  assumes "N \<le> int (length palette)" and "int j < N" and "palette ! j = c"
    and "\<forall>k. j < k \<and> int k < N \<longrightarrow> palette ! k \<noteq> c"
  shows "\<exists>b. init t dc palette um sf N = Inr b \<and>
           ls_map b c = Some (linestyles b ! j) \<and>
           marker_map b c = Some (markers b ! j) \<and>
           hatch_map b c = Some (hatches b ! j)"
proof -
  let ?cs = "take (nat N) palette"
  have nn: "0 \<le> N" using assms(2) by simp
  have j: "j < nat N" using assms(2) by simp
  obtain ls ms hs hm mm lm where
    b: "init t dc palette um sf N =
          Inr \<lparr>type = t, document_class = dc, num_entries = N, use_markers = um,
               paper_use_small_font = sf, colors = ?cs,
               linestyles = ls, markers = ms, hatches = hs,
               hatch_map = hm, marker_map = mm, ls_map = lm\<rparr>"
    and len: "length ?cs = nat N" "length ls = nat N" "length ms = nat N" "length hs = nat N"
    and maps: "dict_by_color ?cs 0 hs Map.empty = Inr hm"
      "dict_by_color ?cs 0 ms Map.empty = Inr mm"
      "dict_by_color ?cs 0 ls Map.empty = Inr lm"
    using init_ok [OF nn assms(1), of t dc um sf] by blast
  have later: "\<forall>k. j < k \<and> k < nat N \<longrightarrow> ?cs ! (0 + k) \<noteq> c"
    using assms(4) by auto
  have here: "?cs ! (0 + j) = c" using assms(3) j by simp
  have "hm c = Some (hs ! j)"
    using maps(1) _ here by (rule dict_by_color_last) (use j later len in simp_all)
  moreover have "mm c = Some (ms ! j)"
    using maps(2) _ here by (rule dict_by_color_last) (use j later len in simp_all)
  moreover have "lm c = Some (ls ! j)"
    using maps(3) _ here by (rule dict_by_color_last) (use j later len in simp_all)
  ultimately show ?thesis using b by simp
qed

theorem reverse_maps_last_wins_witness:
  "\<exists>b. init ''paper'' () [''c0'', ''c1'', ''c0'', ''c2''] False True 4 = Inr b \<and>
      linestyles b = [''solid'', ''dotted'', ''dashed'', ''dashdot''] \<and>
      ls_map b ''c0'' = Some ''dashed'' \<and>
      marker_map b ''c0'' = Some ''s'' \<and>
      hatch_map b ''c0'' = Some [CHR 0x5C, CHR 0x5C]"
proof -
  let ?p = "[''c0'', ''c1'', ''c0'', ''c2'']"
  have h1: "4 \<le> int (length ?p)" by simp
  have h2: "int 2 < 4" by simp
  have h3: "?p ! 2 = ''c0''" by (simp add: eval_nat_numeral)
  have h4: "\<forall>k. 2 < k \<and> int k < 4 \<longrightarrow> ?p ! k \<noteq> ''c0''"
  proof (intro allI impI)
    fix k :: nat
    assume "2 < k \<and> int k < 4"
    then have "k = 3" by linarith
    then show "?p ! k \<noteq> ''c0''" by (simp add: eval_nat_numeral)
  qed
  obtain b where b: "init ''paper'' () ?p False True 4 = Inr b"
    and m: "ls_map b ''c0'' = Some (linestyles b ! 2)"
      "marker_map b ''c0'' = Some (markers b ! 2)"
      "hatch_map b ''c0'' = Some (hatches b ! 2)"
    using reverse_maps_last_wins [OF h1 h2 h3 h4, of "''paper''" "()" False True] by blast
  have "linestyles b = [''solid'', ''dotted'', ''dashed'', ''dashdot''] \<and>
      markers b ! 2 = ''s'' \<and> hatches b ! 2 = [CHR 0x5C, CHR 0x5C]"
    using b by (simp add: run_defs) (auto simp: eval_nat_numeral)
  with b m show ?thesis by (auto simp: eval_nat_numeral)
qed



section \<open>Properties of the mode-dependent parts\<close>

lemma get_cycler_aligned:
  assumes "length (colors self) = length (linestyles self)"
    and "colors self \<noteq> []" and "markers self \<noteq> []"
  shows "\<exists>cycling. get_cycler self = Inr cycling"
proof -
  have "linestyles self \<noteq> []" using assms(1,2) by auto
  then show ?thesis
    using assms
    by (simp add: get_cycler_def cycler_add_def cycler_iadd_def cycler_def bind_res_def)
qed

lemma init_builder:
  assumes "0 < N" and "N \<le> int (length palette)"
  obtains b cycling where "init t dc palette um sf N = Inr b"
    and "type b = t" and "paper_use_small_font b = sf"
    and "get_cycler b = Inr cycling"
proof -
  obtain ls ms hs hm mm lm where
    b: "init t dc palette um sf N =
          Inr \<lparr>type = t, document_class = dc, num_entries = N, use_markers = um,
               paper_use_small_font = sf, colors = take (nat N) palette,
               linestyles = ls, markers = ms, hatches = hs,
               hatch_map = hm, marker_map = mm, ls_map = lm\<rparr>"
    and len: "length (take (nat N) palette) = nat N" "length ls = nat N"
      "length ms = nat N"
    using init_ok [OF less_imp_le [OF assms(1)] assms(2), of t dc um sf] by blast
  let ?b = "\<lparr>type = t, document_class = dc, num_entries = N, use_markers = um,
               paper_use_small_font = sf, colors = take (nat N) palette,
               linestyles = ls, markers = ms, hatches = hs,
               hatch_map = hm, marker_map = mm, ls_map = lm\<rparr>"
  have "length (colors ?b) = length (linestyles ?b)"
    using len by simp
  moreover have "colors ?b \<noteq> []" and "markers ?b \<noteq> []"
    using len assms(1) by auto
  ultimately obtain cycling where "get_cycler ?b = Inr cycling"
    using get_cycler_aligned by blast
  with b show thesis by (intro that [of ?b cycling]) simp_all
qed

lemma paper_small_font_dict:
  "paper_small_font self doc = (r, doc') \<Longrightarrow> dict doc' = dict doc"
  by (auto simp: paper_small_font_def update_style_def Let_def split: if_splits)

lemma get_figure_type_paper:
  assumes "type self = ''paper''" and "get_cycler self = Inr cycling"
  shows "\<exists>doc. get_figure_type Document self = Inr doc"
  using assms
  by (simp add: get_figure_type_def get_line_sizes_def paper_small_font_def bind_res_def Let_def)

text \<open>
  Claim C7. In mode \<open>paper\<close> the numeric style parameters hold
  \<open>axes.linewidth = 0.5\<close> and \<open>lines.linewidth = 0.8\<close> on top of the default
  \<open>grid.linestyle = '--'\<close>; in mode \<open>presentation\<close> they hold the default alone, so
  none of the overrides of mode \<open>paper\<close>.
\<close>

theorem get_line_sizes_by_mode:
  "(type self = ''paper'' \<longrightarrow>
      (\<exists>d. get_line_sizes self = Inr d \<and>
         d ''grid.linestyle'' = Some (Str ''--'') \<and>
         d ''axes.linewidth'' = Some (Num 0.5) \<and>
         d ''lines.linewidth'' = Some (Num 0.8))) \<and>
   (type self = ''presentation'' \<longrightarrow>
      (\<exists>d. get_line_sizes self = Inr d \<and>
         d ''grid.linestyle'' = Some (Str ''--'') \<and> dom d = {''grid.linestyle''}))"
  by (simp add: get_line_sizes_def)

theorem get_line_sizes_by_mode_witness:
  "\<exists>b p. init ''paper'' () [''c0'', ''c1'', ''c2'', ''c3'', ''c4'', ''c5'', ''c6'', ''c7'', ''c8'', ''c9'']
            False True 10 = Inr b \<and>
         init ''presentation'' () [''c0'', ''c1'', ''c2'', ''c3'', ''c4'', ''c5'', ''c6'', ''c7'', ''c8'', ''c9'']
            False True 10 = Inr p \<and>
         type b = ''paper'' \<and> type p = ''presentation'' \<and>
         (\<exists>d. get_line_sizes b = Inr d \<and>
            d ''grid.linestyle'' = Some (Str ''--'') \<and>
            d ''axes.linewidth'' = Some (Num 0.5) \<and>
            d ''lines.linewidth'' = Some (Num 0.8)) \<and>
         (\<exists>d. get_line_sizes p = Inr d \<and>
            d ''grid.linestyle'' = Some (Str ''--'') \<and> dom d = {''grid.linestyle''})"
proof -
  let ?cs = "[''c0'', ''c1'', ''c2'', ''c3'', ''c4'', ''c5'', ''c6'', ''c7'', ''c8'', ''c9'']"
  have n: "(0::int) < 10" "10 \<le> int (length ?cs)" by simp_all
  obtain b cb where b: "init ''paper'' () ?cs False True 10 = Inr b" "type b = ''paper''"
    using n by (rule init_builder)
  obtain p cp where p: "init ''presentation'' () ?cs False True 10 = Inr p"
      "type p = ''presentation''"
    using n by (rule init_builder)
  have pb: "\<exists>d. get_line_sizes b = Inr d \<and>
            d ''grid.linestyle'' = Some (Str ''--'') \<and>
            d ''axes.linewidth'' = Some (Num 0.5) \<and>
            d ''lines.linewidth'' = Some (Num 0.8)"
    using get_line_sizes_by_mode [of b, THEN conjunct1] b(2) by (rule mp)
  have pp: "\<exists>d. get_line_sizes p = Inr d \<and>
            d ''grid.linestyle'' = Some (Str ''--'') \<and> dom d = {''grid.linestyle''}"
    using get_line_sizes_by_mode [of p, THEN conjunct2] p(2) by (rule mp)
  from b p pb pp show ?thesis by (intro exI [of _ b] exI [of _ p] conjI)
qed

text \<open>
  Claim C3 says that a build in mode \<open>presentation\<close> sets font sizes in two tiers.
  The code does not: for a builder of mode \<open>presentation\<close>, \<open>get_font_sizes\<close> returns
  the font family and the preamble only, and none of the seven size options, because
  its test compares the builtin \<open>type\<close>, not \<open>self.type\<close>, with \<open>'presentation'\<close>.
\<close>

theorem get_font_sizes_presentation:
  "dom (get_font_sizes (self\<lparr>type := ''presentation''\<rparr>)) =
     {''font.family'', ''text.latex.preamble''} \<and>
   get_font_sizes (self\<lparr>type := ''presentation''\<rparr>) ''font.size'' = None \<and>
   get_font_sizes (self\<lparr>type := ''presentation''\<rparr>) ''axes.titlesize'' = None \<and>
   get_font_sizes (self\<lparr>type := ''presentation''\<rparr>) ''axes.labelsize'' = None \<and>
   get_font_sizes (self\<lparr>type := ''presentation''\<rparr>) ''legend.fontsize'' = None \<and>
   get_font_sizes (self\<lparr>type := ''presentation''\<rparr>) ''legend.title_fontsize'' = None \<and>
   get_font_sizes (self\<lparr>type := ''presentation''\<rparr>) ''xtick.labelsize'' = None \<and>
   get_font_sizes (self\<lparr>type := ''presentation''\<rparr>) ''ytick.labelsize'' = None"
  by (auto simp add: get_font_sizes_def)

text \<open>
  Claim C4 says that a document built in mode \<open>paper\<close> never receives the two
  slide sizes. The code gives them to every document: whenever a build in mode
  \<open>paper\<close> returns a document, its attributes hold \<open>columnwidth = in2pt(13.33)\<close> and
  \<open>textwidth = in2pt(7.5)\<close>, since \<open>get_figure_type\<close> calls \<open>presentation_config\<close>
  in every mode and \<open>presentation_config\<close> does not test the mode.
\<close>

theorem build_receives_presentation_sizes:
  assumes "type self = ''paper''" and "get_figure_type Document self = Inr doc"
  shows "dict doc ''columnwidth'' = Some (Num (in2pt 13.33)) \<and>
         dict doc ''textwidth'' = Some (Num (in2pt 7.5))"
proof -
  from assms(2) obtain cycling line_sizes r where
    psf: "paper_small_font self
            (presentation_config self
              (Document (document_class self)
                ([''pdf.fonttype'' \<mapsto> Num 42, ''axes.prop_cycle'' \<mapsto> Cycler cycling] ++
                   get_custom_style self ++ line_sizes ++ get_font_sizes self))) = (r, doc)"
    by (auto simp: get_figure_type_def bind_res_def Let_def split: sum.splits prod.splits)
  then have "dict doc =
      dict (presentation_config self
              (Document (document_class self)
                ([''pdf.fonttype'' \<mapsto> Num 42, ''axes.prop_cycle'' \<mapsto> Cycler cycling] ++
                   get_custom_style self ++ line_sizes ++ get_font_sizes self)))"
    by (rule paper_small_font_dict)
  then show ?thesis by (simp add: presentation_config_def)
qed

theorem build_receives_presentation_sizes_witness:
  "\<exists>b doc. init ''paper'' () [''c0'', ''c1''] False True 2 = Inr b \<and>
       type b = ''paper'' \<and>
       get_figure_type (\<lambda>dc st. \<lparr>style = st, footnotesize = 8, dict = Map.empty\<rparr>) b = Inr doc \<and>
       dict doc ''columnwidth'' = Some (Num 959.76) \<and>
       dict doc ''textwidth'' = Some (Num 540)"
proof -
  let ?D = "\<lambda>(dc :: unit) (st :: string style_dict). \<lparr>style = st, footnotesize = 8, dict = Map.empty\<rparr>"
  have n: "(0::int) < 2" "2 \<le> int (length [''c0'', ''c1''])" by simp_all
  obtain b cb where b: "init ''paper'' () [''c0'', ''c1''] False True 2 = Inr b"
      "type b = ''paper''" "get_cycler b = Inr cb"
    using n by (rule init_builder)
  obtain doc where doc: "get_figure_type ?D b = Inr doc"
    using get_figure_type_paper [OF b(2,3)] by (rule exE)
  have "dict doc ''columnwidth'' = Some (Num (in2pt 13.33)) \<and>
        dict doc ''textwidth'' = Some (Num (in2pt 7.5))"
    using b(2) doc by (rule build_receives_presentation_sizes)
  then have sizes: "dict doc ''columnwidth'' = Some (Num 959.76)" "dict doc ''textwidth'' = Some (Num 540)"
    by (simp_all add: in2pt_def)
  from b(1,2) doc sizes show ?thesis by (intro exI [of _ b] exI [of _ doc] conjI)
qed

text \<open>
  Claim C5. When \<open>paper_use_small_font\<close> is set and the mode is not \<open>paper\<close>,
  \<open>paper_small_font\<close> raises \<open>AssertionError\<close> and leaves the document as it was;
  the build returns no document, and it fails with \<open>AssertionError\<close> whenever it gets as
  far as the patch, that is, whenever \<open>get_cycler\<close> and \<open>get_line_sizes\<close> return.
\<close>

theorem small_font_patch_outside_paper:
  assumes "paper_use_small_font self" and "type self \<noteq> ''paper''"
  shows "paper_small_font self doc = (Inl AssertionError, doc) \<and>
         (\<exists>e. get_figure_type Document self = Inl e) \<and>
         (\<forall>cycling line_sizes. get_cycler self = Inr cycling \<and> get_line_sizes self = Inr line_sizes
            \<longrightarrow> get_figure_type Document self = Inl AssertionError)"
  using assms
  by (auto simp: paper_small_font_def get_figure_type_def bind_res_def Let_def
      split: sum.splits)

theorem small_font_patch_outside_paper_witness:
  "\<exists>b. init ''presentation'' () [''c0'', ''c1''] False True 2 = Inr b \<and>
       paper_use_small_font b \<and> type b \<noteq> ''paper'' \<and>
       paper_small_font b \<lparr>style = Map.empty, footnotesize = 8, dict = Map.empty\<rparr> =
         (Inl AssertionError, \<lparr>style = Map.empty, footnotesize = 8, dict = Map.empty\<rparr>) \<and>
       get_figure_type (\<lambda>dc st. \<lparr>style = st, footnotesize = 8, dict = Map.empty\<rparr>) b =
         Inl AssertionError"
proof -
  let ?D = "\<lambda>(dc :: unit) (st :: string style_dict). \<lparr>style = st, footnotesize = 8, dict = Map.empty\<rparr>"
  let ?doc = "\<lparr>style = Map.empty, footnotesize = 8, dict = Map.empty\<rparr> :: string document"
  have n: "(0::int) < 2" "2 \<le> int (length [''c0'', ''c1''])" by simp_all
  obtain b cb where b: "init ''presentation'' () [''c0'', ''c1''] False True 2 = Inr b"
      "type b = ''presentation''" "paper_use_small_font b = True" "get_cycler b = Inr cb"
    using n by (rule init_builder)
  have flag: "paper_use_small_font b" using b(3) by simp
  have mode: "type b \<noteq> ''paper''" using b(2) by simp
  have ls: "get_line_sizes b = Inr [''grid.linestyle'' \<mapsto> Str ''--'']"
    using b(2) by (simp add: get_line_sizes_def)
  note inst = small_font_patch_outside_paper [OF flag mode, of ?doc ?D]
  have patch: "paper_small_font b ?doc = (Inl AssertionError, ?doc)"
    using inst by (rule conjunct1)
  have "get_cycler b = Inr cb \<and> get_line_sizes b = Inr [''grid.linestyle'' \<mapsto> Str ''--'']
     \<longrightarrow> get_figure_type ?D b = Inl AssertionError"
    using inst [THEN conjunct2, THEN conjunct2] by (elim allE)
  then have build: "get_figure_type ?D b = Inl AssertionError"
    using b(4) ls by (simp only: simp_thms)
  from b(1) flag mode patch build show ?thesis by (intro exI [of _ b] conjI)
qed

end
